theory Spec2Isabelle
  imports Main "HOL-Library.Sublist"
begin

section \<open>Values and exceptions\<close>

text \<open>
  A cell of the data frame that \<open>pandas.read_csv\<close> builds: a string, the missing value
  (a float NaN), or some other scalar of a numeric column. The payload of \<open>Num\<close> is never
  read by the program.
\<close>

datatype cell = Str string | NaN | Num int

text \<open>
  The exceptions of the program, all of them subclasses of Python's \<open>Exception\<close>, each
  with the text that \<open>str(e)\<close> gives. \<open>UnicodeDecodeError\<close> is a subclass of
  \<open>ValueError\<close>. \<open>OtherException\<close> stands for every other class a collaborator (storage,
  secret store, HTTP client, CSV parser) may raise.
\<close>

datatype exn =
    ValueError string
  | UnicodeDecodeError string
  | TypeError string
  | AttributeError string
  | IndexError string
  | LangDetectException string
  | OtherException string

fun str_exn :: "exn \<Rightarrow> string" where
  "str_exn (ValueError m) = m"
| "str_exn (UnicodeDecodeError m) = m"
| "str_exn (TypeError m) = m"
| "str_exn (AttributeError m) = m"
| "str_exn (IndexError m) = m"
| "str_exn (LangDetectException m) = m"
| "str_exn (OtherException m) = m"

text \<open>What \<open>except ValueError\<close> catches.\<close>

fun is_ValueError :: "exn \<Rightarrow> bool" where
  "is_ValueError (ValueError m) = True"
| "is_ValueError (UnicodeDecodeError m) = True"
| "is_ValueError e = False"

section \<open>Strings\<close>

text \<open>\<open>str.isspace\<close> on the characters below 128.\<close>

definition py_isspace :: "char \<Rightarrow> bool" where
  "py_isspace c = (c \<in> set [CHR 0x09, CHR 0x0A, CHR 0x0B, CHR 0x0C, CHR 0x0D,
                             CHR 0x1C, CHR 0x1D, CHR 0x1E, CHR 0x1F, CHR 0x20])"

text \<open>\<open>s.strip()\<close>\<close>

definition py_strip :: "string \<Rightarrow> string" where
  "py_strip s = rev (dropWhile py_isspace (rev (dropWhile py_isspace s)))"

text \<open>\<open>s.split(c)\<close> for a one-character separator: never the empty list.\<close>

fun py_split :: "char \<Rightarrow> string \<Rightarrow> string list" where
  "py_split c [] = [[]]"
| "py_split c (x # xs) =
     (if x = c then [] # py_split c xs
      else (case py_split c xs of [] \<Rightarrow> [[x]] | p # ps \<Rightarrow> (x # p) # ps))"

text \<open>\<open>s.replace(c, "")\<close> for a one-character \<open>c\<close>.\<close>

definition py_remove :: "char \<Rightarrow> string \<Rightarrow> string" where
  "py_remove c s = filter (\<lambda>x. x \<noteq> c) s"

definition is_digit :: "char \<Rightarrow> bool" where
  "is_digit c = (c \<in> set ''0123456789'')"

definition digit_val :: "char \<Rightarrow> int" where
  "digit_val c = int (of_char c) - 48"

text \<open>The value of a digit string, most significant digit first.\<close>

definition dec_value :: "string \<Rightarrow> int" where
  "dec_value ds = foldl (\<lambda>acc c. 10 * acc + digit_val c) 0 ds"

text \<open>
  The digits of an integer literal: groups of digits separated by single underscores,
  no group empty.
\<close>

definition py_digits :: "string \<Rightarrow> int option" where
  "py_digits s =
     (let groups = py_split CHR ''_'' s in
      if list_all (\<lambda>g. g \<noteq> [] \<and> list_all is_digit g) groups
      then Some (dec_value (concat groups)) else None)"

text \<open>
  \<open>int(s)\<close> for a string: surrounding white space is dropped, one sign is allowed.
  \<open>None\<close> is Python's \<open>ValueError\<close>. (The interpreter's limit on the number of digits,
  a run-time setting, is not modelled.)
\<close>

definition py_int :: "string \<Rightarrow> int option" where
  "py_int s =
     (case py_strip s of
        [] \<Rightarrow> None
      | c # cs \<Rightarrow>
          if c = CHR ''-'' then map_option uminus (py_digits cs)
          else if c = CHR ''+'' then py_digits cs
          else py_digits (c # cs))"

text \<open>\<open>str(n)\<close> for an integer.\<close>

fun str_nat :: "nat \<Rightarrow> string" where
  "str_nat n = (if n < 10 then [char_of (48 + n)] else str_nat (n div 10) @ [char_of (48 + n mod 10)])"

definition str_int :: "int \<Rightarrow> string" where
  "str_int i = (if i < 0 then CHR ''-'' # str_nat (nat (- i)) else str_nat (nat i))"

section \<open>Text cleaning and timestamps\<close>

text \<open>
  Where the pattern \<open>\[.*?\]\<close> can close after an opening bracket: the text after the
  first \<open>]\<close>, provided no line feed comes before it (\<open>.\<close> does not match a line feed).
\<close>

fun bracket_rest :: "string \<Rightarrow> string option" where
  "bracket_rest [] = None"
| "bracket_rest (c # cs) =
     (if c = CHR '']'' then Some cs
      else if c = CHR 0x0A then None
      else bracket_rest cs)"

lemma bracket_rest_length: "bracket_rest cs = Some r \<Longrightarrow> length r < length cs"
  by (induction cs) (auto split: if_splits)

text \<open>\<open>re.sub(r'\[.*?\]', '', text)\<close>: leftmost matches, each as short as possible.\<close>

function re_sub_brackets :: "string \<Rightarrow> string" where
  "re_sub_brackets [] = []"
| "re_sub_brackets (c # cs) =
     (if c = CHR ''[''
      then (case bracket_rest cs of
              Some r \<Rightarrow> re_sub_brackets r
            | None \<Rightarrow> c # re_sub_brackets cs)
      else c # re_sub_brackets cs)"
  by pat_completeness auto
termination
  by (relation "measure length") (auto dest: bracket_rest_length)

text \<open>
  \<open>clean_text\<close> (src/main.py, 72-73). The argument is whatever the row holds; \<open>re.sub\<close>
  raises \<open>TypeError\<close> on anything but a string.
\<close>

definition clean_text :: "cell \<Rightarrow> exn + string" where
  "clean_text text =
     (case text of
        Str s \<Rightarrow> Inr (re_sub_brackets s)
      | _ \<Rightarrow> Inl (TypeError ''expected string or bytes-like object''))"

text \<open>
  The unpacking \<open>minutes, seconds = map(int, timestamp.split(':'))\<close>: the parts are
  converted one by one as the unpacking asks for them, and every way it can fail is a
  \<open>ValueError\<close>.
\<close>

definition unpack_minutes_seconds :: "string \<Rightarrow> exn + (int \<times> int)" where
  "unpack_minutes_seconds timestamp =
     (case py_split CHR '':'' timestamp of
        [] \<Rightarrow> Inl (ValueError ''not enough values to unpack (expected 2, got 0)'')
      | a # rest \<Rightarrow>
          (case py_int a of
             None \<Rightarrow> Inl (ValueError ''invalid literal for int() with base 10'')
           | Some minutes \<Rightarrow>
               (case rest of
                  [] \<Rightarrow> Inl (ValueError ''not enough values to unpack (expected 2, got 1)'')
                | b # rest' \<Rightarrow>
                    (case py_int b of
                       None \<Rightarrow> Inl (ValueError ''invalid literal for int() with base 10'')
                     | Some seconds \<Rightarrow>
                         (case rest' of
                            [] \<Rightarrow> Inr (minutes, seconds)
                          | c # _ \<Rightarrow>
                              (case py_int c of
                                 None \<Rightarrow> Inl (ValueError ''invalid literal for int() with base 10'')
                               | Some _ \<Rightarrow> Inl (ValueError ''too many values to unpack (expected 2)'')))))))"

text \<open>
  \<open>convert_timestamp_to_seconds\<close> (src/main.py, 76-81). Only \<open>ValueError\<close> is caught; a
  value that is not a string has no \<open>split\<close>, and that \<open>AttributeError\<close> leaves the
  function.
\<close>

definition convert_timestamp_to_seconds :: "cell \<Rightarrow> exn + int" where
  "convert_timestamp_to_seconds timestamp =
     (case (case timestamp of
              Str s \<Rightarrow> (case unpack_minutes_seconds s of
                          Inl e \<Rightarrow> Inl e
                        | Inr (minutes, seconds) \<Rightarrow> Inr (minutes * 60 + seconds))
            | _ \<Rightarrow> Inl (AttributeError ''object has no attribute split''))
      of Inl e \<Rightarrow> (if is_ValueError e then Inr 0 else Inl e)
       | Inr v \<Rightarrow> Inr v)"

section \<open>The transcript table\<close>

text \<open>
  A data frame: its column labels in order, and its rows in order. A row is a series
  indexed by the column labels: a lookup from label to cell, read only at the labels
  of the table.
\<close>

type_synonym row = "string \<Rightarrow> cell"

record table =
  columns :: "string list"
  rows :: "row list"

text \<open>\<open>row.get(key, default)\<close>\<close>

definition row_get :: "string list \<Rightarrow> row \<Rightarrow> string \<Rightarrow> cell \<Rightarrow> cell" where
  "row_get cols row key dflt = (if key \<in> set cols then row key else dflt)"

text \<open>\<open>df[column]\<close> for a label of the table, \<open>.dropna()\<close> and \<open>.iloc[0]\<close>.\<close>

definition column :: "table \<Rightarrow> string \<Rightarrow> cell list" where
  "column df c = map (\<lambda>row. row c) (rows df)"

definition dropna :: "cell list \<Rightarrow> cell list" where
  "dropna cs = filter (\<lambda>c. c \<noteq> NaN) cs"

definition iloc0 :: "cell list \<Rightarrow> exn + cell" where
  "iloc0 cs =
     (case cs of
        [] \<Rightarrow> Inl (IndexError ''single positional indexer is out-of-bounds'')
      | c # _ \<Rightarrow> Inr c)"

section \<open>The markup generator\<close>

text \<open>The single quote of the f-strings.\<close>

abbreviation apostrophe :: string where
  "apostrophe \<equiv> [CHR 0x27]"

definition speak_open :: "string \<Rightarrow> string" where
  "speak_open xml_lang =
     ''<speak version='1.0' xmlns='http://www.w3.org/2001/10/synthesis' xml:lang=''
       @ apostrophe @ xml_lang @ apostrophe @ ''>\<newline>''"

definition break_element :: "int \<Rightarrow> string" where
  "break_element delay = ''<break time='' @ apostrophe @ str_int delay @ ''s' />\<newline>''"

definition voice_element :: "string \<Rightarrow> string \<Rightarrow> string" where
  "voice_element voice transcription =
     ''<voice name='' @ apostrophe @ voice @ apostrophe @ ''>'' @ transcription @ ''</voice>\<newline>''"

text \<open>
  The loop of \<open>generate_ssml\<close> (src/main.py, 138-152) over the rows still to visit, with
  the two variables it updates.
\<close>

fun ssml_rows ::
  "string list \<Rightarrow> string \<Rightarrow> string \<Rightarrow> string \<Rightarrow> row list \<Rightarrow> int \<Rightarrow> string \<Rightarrow> exn + string"
where
  "ssml_rows cols lang_column male_voice female_voice [] last_timestamp ssml_content =
     Inr ssml_content"
| "ssml_rows cols lang_column male_voice female_voice (row # rest) last_timestamp ssml_content =
     (let speaker = row_get cols row ''Speaker'' (Str ''spk_0'') in
      case clean_text (row_get cols row lang_column (Str [])) of
        Inl e \<Rightarrow> Inl e
      | Inr transcription \<Rightarrow>
          if transcription = []
          then ssml_rows cols lang_column male_voice female_voice rest last_timestamp ssml_content
          else
            (case convert_timestamp_to_seconds (row_get cols row ''Time Markers'' (Str ''0:00'')) of
               Inl e \<Rightarrow> Inl e
             | Inr timestamp_seconds \<Rightarrow>
                 let delay = max 0 (timestamp_seconds - last_timestamp);
                     with_break = (if delay > 0 then ssml_content @ break_element delay
                                   else ssml_content);
                     voice = (if speaker = Str ''spk_0'' then male_voice else female_voice)
                 in ssml_rows cols lang_column male_voice female_voice rest timestamp_seconds
                      (with_break @ voice_element voice transcription)))"

text \<open>
  The content that \<open>generate_ssml\<close> has built when it reaches the upload
  (src/main.py, 131-154).
\<close>

definition ssml_document ::
  "table \<Rightarrow> string \<Rightarrow> string \<Rightarrow> string \<Rightarrow> string \<Rightarrow> exn + string"
where
  "ssml_document df lang_column male_voice female_voice xml_lang =
     (if lang_column \<notin> set (columns df)
      then Inl (ValueError (''Column '' @ apostrophe @ lang_column @ apostrophe @ '' not found in the CSV file.''))
      else (case ssml_rows (columns df) lang_column male_voice female_voice (rows df) 0
                   (speak_open xml_lang) of
              Inl e \<Rightarrow> Inl e
            | Inr ssml_content \<Rightarrow> Inr (ssml_content @ ''</speak>'')))"

section \<open>Collaborators\<close>

text \<open>
  An entry of the voice catalogue; the handler reads these three fields of it, which
  every entry of the service's list carries.
\<close>

record voice_entry =
  Locale :: string
  ShortName :: string
  Gender :: string

text \<open>
  What the request gets from outside the module: the uploaded file, the identifiers
  \<open>uuid.uuid4()\<close> draws (numbered in the order of the handler's own draws), the object
  store, the CSV reader, the voice catalogue, the synthesis service and the language
  detector. Each call either returns or raises. \<open>get_supported_voices\<close> and
  \<open>convert_ssml_to_audio\<close> (src/main.py, 113-127 and 162-194) only talk to the secret
  store, the object store and the synthesis service, so their outcome is given here:
  the catalogue, and the path of the stored audio for the path of a stored document.
\<close>

record env =
  S3_BUCKET_NAME :: string
  uuid4 :: "nat \<Rightarrow> string"
  put_object :: "string \<Rightarrow> string \<Rightarrow> exn option"
  file_read :: "exn + string"
  decode_utf8 :: "string \<Rightarrow> exn + string"
  read_csv :: "string \<Rightarrow> exn + table"
  get_supported_voices :: "exn + voice_entry list"
  convert_ssml_to_audio :: "string \<Rightarrow> exn + string"
  detect :: "cell \<Rightarrow> exn + string"

definition S3_INPUT_FOLDER :: string where "S3_INPUT_FOLDER = ''input/''"
definition S3_SSML_FOLDER :: string where "S3_SSML_FOLDER = ''ssml/''"
definition S3_AUDIO_FOLDER :: string where "S3_AUDIO_FOLDER = ''audio/''"

text \<open>\<open>upload_file_to_s3\<close> (src/main.py, 84-95): both handlers raise again.\<close>

definition upload_file_to_s3 :: "env \<Rightarrow> string \<Rightarrow> string \<Rightarrow> string \<Rightarrow> exn + string" where
  "upload_file_to_s3 env file_data filename folder =
     (case put_object env (folder @ filename) file_data of
        Some e \<Rightarrow> Inl e
      | None \<Rightarrow> Inr (''s3://'' @ S3_BUCKET_NAME env @ ''/'' @ folder @ filename))"

text \<open>
  \<open>generate_ssml\<close> (src/main.py, 130-159); \<open>n\<close> numbers the identifier it draws for the
  file name.
\<close>

definition generate_ssml ::
  "env \<Rightarrow> nat \<Rightarrow> table \<Rightarrow> string \<Rightarrow> string \<Rightarrow> string \<Rightarrow> string \<Rightarrow> exn + string"
where
  "generate_ssml env n df lang_column male_voice female_voice xml_lang =
     (case ssml_document df lang_column male_voice female_voice xml_lang of
        Inl e \<Rightarrow> Inl e
      | Inr ssml_content \<Rightarrow>
          upload_file_to_s3 env ssml_content (uuid4 env n @ ''.ssml'') S3_SSML_FOLDER)"

text \<open>\<open>detect_language\<close> (src/main.py, 227-231)\<close>

definition detect_language :: "env \<Rightarrow> cell \<Rightarrow> exn + string" where
  "detect_language env text =
     (case detect env text of
        Inl (LangDetectException m) \<Rightarrow> Inr ''unknown''
      | Inl e \<Rightarrow> Inl e
      | Inr lang \<Rightarrow> Inr lang)"

text \<open>\<open>find_transcription_column\<close> (src/main.py, 234-238), over \<open>df.columns\<close>.\<close>

fun find_transcription_column :: "string list \<Rightarrow> string \<Rightarrow> string option" where
  "find_transcription_column [] locale_code = None"
| "find_transcription_column (col # cols) locale_code =
     (if sublist locale_code col \<and> suffix ''--Transcription'' col then Some col
      else find_transcription_column cols locale_code)"

section \<open>The upload endpoint\<close>

text \<open>A JSON object of string fields, as the handler returns it.\<close>

type_synonym json = "(string \<times> string) list"

text \<open>\<open>source.strip()\<close>, then the three \<open>replace\<close> calls that delete every backslash,
  line feed and tab.\<close>

definition clean_source :: "string \<Rightarrow> string" where
  "clean_source source =
     py_remove (CHR 0x09) (py_remove (CHR 0x0A) (py_remove (CHR 0x5C) (py_strip source)))"

text \<open>
  The locale resolution inside \<open>upload_csv\<close> (src/main.py, 258-269): the payload the
  handler returns, or the two voice names. \<open>not x\<close> holds of \<open>None\<close> and of the empty
  string.
\<close>

definition resolve_voices :: "string \<Rightarrow> voice_entry list \<Rightarrow> json + (string \<times> string)" where
  "resolve_voices source_cleaned supported_voices =
     (let source_voices = filter (\<lambda>v. source_cleaned = Locale v) supported_voices in
      if source_voices = []
      then Inl [(''error'', ''Invalid locale specified or locale not supported.'')]
      else
        let male_voice = map_option ShortName (find (\<lambda>v. sublist ''Male'' (Gender v)) source_voices);
            female_voice = map_option ShortName (find (\<lambda>v. sublist ''Female'' (Gender v)) source_voices)
        in (case (male_voice, female_voice) of
              (Some m, Some f) \<Rightarrow>
                if m = [] \<or> f = []
                then Inl [(''error'', ''Male or female voice not found for '' @ source_cleaned @ ''.'')]
                else Inr (m, f)
            | _ \<Rightarrow> Inl [(''error'', ''Male or female voice not found for '' @ source_cleaned @ ''.'')]))"

text \<open>
  \<open>upload_csv\<close> up to the choice of the voices (src/main.py, 244-269): an exception, a
  payload returned early, or the table, the cleaned locale and the two voices.
\<close>

definition upload_csv_voices ::
  "env \<Rightarrow> string \<Rightarrow> exn + (json + (table \<times> string \<times> string \<times> string))"
where
  "upload_csv_voices env source =
     (let source_cleaned = clean_source source in
      case file_read env of
        Inl e \<Rightarrow> Inl e
      | Inr contents \<Rightarrow>
          (case (case decode_utf8 env contents of Inl e \<Rightarrow> Inl e | Inr text \<Rightarrow> read_csv env text) of
             Inl (UnicodeDecodeError m) \<Rightarrow>
               Inr (Inl [(''error'',
                  ''File encoding is not supported. Please ensure the file is UTF-8 encoded.'')])
           | Inl e \<Rightarrow> Inl e
           | Inr df \<Rightarrow>
               (case upload_file_to_s3 env contents (uuid4 env 0 @ ''.csv'') S3_INPUT_FOLDER of
                  Inl e \<Rightarrow> Inl e
                | Inr input_path \<Rightarrow>
                    (case get_supported_voices env of
                       Inl e \<Rightarrow> Inl e
                     | Inr supported_voices \<Rightarrow>
                         (case resolve_voices source_cleaned supported_voices of
                            Inl payload \<Rightarrow> Inr (Inl payload)
                          | Inr (male_voice, female_voice) \<Rightarrow>
                              Inr (Inr (df, source_cleaned, male_voice, female_voice)))))))"

text \<open>
  \<open>upload_csv\<close> from the search for the transcription column to the answer
  (src/main.py, 275-297).
\<close>

definition upload_csv_source ::
  "env \<Rightarrow> table \<Rightarrow> string \<Rightarrow> string \<Rightarrow> string \<Rightarrow> string \<Rightarrow> exn + json"
where
  "upload_csv_source env df source_cleaned male_voice female_voice audio_file_en =
     (let locale_code = last (py_split CHR ''-'' source_cleaned);
          missing = [(''error'', ''CSV must contain a column with '' @ apostrophe @ locale_code
                        @ ''--Transcription' for the specified language.'')]
      in
      case find_transcription_column (columns df) locale_code of
        None \<Rightarrow> Inr missing
      | Some transcription_column \<Rightarrow>
          if transcription_column = [] then Inr missing
          else
            (case iloc0 (dropna (column df transcription_column)) of
               Inl e \<Rightarrow> Inl e
             | Inr first_transcription \<Rightarrow>
                 (case detect_language env first_transcription of
                    Inl e \<Rightarrow> Inl e
                  | Inr detected_language \<Rightarrow>
                      if locale_code = ''IN'' \<and> detected_language \<noteq> ''hi''
                      then Inr [(''error'', ''Detected language '' @ apostrophe @ detected_language
                                   @ apostrophe
                                   @ '' does not match the expected language 'Hindi' in 'IN--Transcription'.'')]
                      else
                        (case generate_ssml env 2 df transcription_column male_voice female_voice
                                source_cleaned of
                           Inl e \<Rightarrow> Inl e
                         | Inr ssml_file_path_source \<Rightarrow>
                             (case convert_ssml_to_audio env ssml_file_path_source of
                                Inl e \<Rightarrow> Inl e
                              | Inr audio_file_source \<Rightarrow>
                                  Inr [(''message'', ''Audio files generated successfully''),
                                       (''english_audio_link'', audio_file_en),
                                       (''language_audio_link'', audio_file_source)])))))"

text \<open>The body of the \<open>try\<close> block of \<open>upload_csv\<close> (src/main.py, 244-297).\<close>

definition upload_csv_body :: "env \<Rightarrow> string \<Rightarrow> exn + json" where
  "upload_csv_body env source =
     (case upload_csv_voices env source of
        Inl e \<Rightarrow> Inl e
      | Inr (Inl payload) \<Rightarrow> Inr payload
      | Inr (Inr (df, source_cleaned, male_voice, female_voice)) \<Rightarrow>
          (case generate_ssml env 1 df ''EN--Transcription'' ''en-US-GuyNeural''
                  ''en-US-JennyNeural'' ''en-US'' of
             Inl e \<Rightarrow> Inl e
           | Inr ssml_file_path_en \<Rightarrow>
               (case convert_ssml_to_audio env ssml_file_path_en of
                  Inl e \<Rightarrow> Inl e
                | Inr audio_file_en \<Rightarrow>
                    upload_csv_source env df source_cleaned male_voice female_voice audio_file_en)))"

text \<open>
  \<open>upload_csv\<close> (src/main.py, 241-304): the body under its two handlers. \<open>Inl\<close> would
  be an exception that leaves the handler.
\<close>

definition upload_csv :: "env \<Rightarrow> string \<Rightarrow> exn + json" where
  "upload_csv env source =
     (case upload_csv_body env source of
        Inr payload \<Rightarrow> Inr payload
      | Inl e \<Rightarrow>
          if is_ValueError e then Inr [(''error'', str_exn e)]
          else Inr [(''error'', ''Error processing file. '' @ str_exn e)])"

section \<open>Reading a markup document\<close>















section \<open>Sample data\<close>

text \<open>A row given by its cells; a label that is not listed holds the missing value.\<close>

definition series :: "(string \<times> cell) list \<Rightarrow> row" where
  "series cells = (\<lambda>label. case map_of cells label of Some c \<Rightarrow> c | None \<Rightarrow> NaN)"

definition transcript_row :: "cell \<Rightarrow> cell \<Rightarrow> cell \<Rightarrow> cell \<Rightarrow> row" where
  "transcript_row speaker time english hindi =
     series [(''Speaker'', speaker), (''Time Markers'', time),
             (''EN--Transcription'', english), (''IN--Transcription'', hindi)]"

definition transcript_columns :: "string list" where
  "transcript_columns = [''Speaker'', ''Time Markers'', ''EN--Transcription'', ''IN--Transcription'']"

text \<open>Four rows with text, at 0:00, 0:05, 0:05 and 0:20.\<close>

definition four_rows :: table where
  "four_rows =
     \<lparr>columns = transcript_columns,
      rows = [transcript_row (Str ''spk_0'') (Str ''0:00'') (Str ''one'') (Str ''ek''),
              transcript_row (Str ''spk_1'') (Str ''0:05'') (Str ''two'') (Str ''do''),
              transcript_row (Str ''spk_0'') (Str ''0:05'') (Str ''three'') (Str ''teen''),
              transcript_row (Str ''spk_1'') (Str ''0:20'') (Str ''four'') (Str ''char'')]\<rparr>"




text \<open>One row, English text only.\<close>

definition english_only :: table where
  "english_only =
     \<lparr>columns = transcript_columns,
      rows = [transcript_row (Str ''spk_0'') (Str ''0:00'') (Str ''one'') NaN]\<rparr>"

text \<open>A Hindi column of numbers, as \<open>read_csv\<close> types a column that holds only numbers.\<close>

definition numeric_rows :: table where
  "numeric_rows =
     \<lparr>columns = transcript_columns,
      rows = [transcript_row (Str ''spk_0'') (Str ''0:00'') (Str ''one'') (Num 123)]\<rparr>"

text \<open>No English column.\<close>

definition no_english :: table where
  "no_english =
     \<lparr>columns = [''Speaker'', ''Time Markers'', ''IN--Transcription''],
      rows = [series [(''Speaker'', Str ''spk_0''), (''Time Markers'', Str ''0:00''),
                      (''IN--Transcription'', Str ''ek'')]]\<rparr>"

text \<open>A Spanish column, with text and without.\<close>

definition spanish_columns :: "string list" where
  "spanish_columns = [''Speaker'', ''Time Markers'', ''EN--Transcription'', ''ES--Transcription'']"


definition blank_spanish :: table where
  "blank_spanish =
     \<lparr>columns = spanish_columns,
      rows = [series [(''Speaker'', Str ''spk_0''), (''Time Markers'', Str ''0:03''),
                      (''EN--Transcription'', Str ''one''), (''ES--Transcription'', NaN)]]\<rparr>"

definition spanish_voices :: "voice_entry list" where
  "spanish_voices =
     [\<lparr>Locale = ''es-ES'', ShortName = ''P'', Gender = ''Male''\<rparr>,
      \<lparr>Locale = ''es-ES'', ShortName = ''Q'', Gender = ''Female''\<rparr>]"

definition sample_voices :: "voice_entry list" where
  "sample_voices =
     [\<lparr>Locale = ''en-US'', ShortName = ''A'', Gender = ''Male''\<rparr>,
      \<lparr>Locale = ''en-US'', ShortName = ''B'', Gender = ''Female''\<rparr>]"

definition hindi_voices :: "voice_entry list" where
  "hindi_voices =
     [\<lparr>Locale = ''en-US'', ShortName = ''A'', Gender = ''Male''\<rparr>,
      \<lparr>Locale = ''hi-IN'', ShortName = ''S'', Gender = ''Female''\<rparr>,
      \<lparr>Locale = ''hi-IN'', ShortName = ''M'', Gender = ''Male''\<rparr>]"

text \<open>
  A request in which every collaborator answers: the file parses to \<open>df\<close>, the store
  accepts every object, and the detector answers \<open>lang\<close>.
\<close>

definition answering :: "table \<Rightarrow> voice_entry list \<Rightarrow> string \<Rightarrow> env" where
  "answering df voices lang =
     \<lparr>S3_BUCKET_NAME = ''bucket'',
      uuid4 = (\<lambda>n. ''id'' @ str_nat n),
      put_object = (\<lambda>key body. None),
      file_read = Inr ''csv'',
      decode_utf8 = (\<lambda>bytes. Inr bytes),
      read_csv = (\<lambda>text. Inr df),
      get_supported_voices = Inr voices,
      convert_ssml_to_audio = (\<lambda>path. Inr (path @ ''.wav'')),
      detect = (\<lambda>text. Inr lang)\<rparr>"

text \<open>The same, with a detector that rejects what is not a string.\<close>

definition typed_detector :: "table \<Rightarrow> voice_entry list \<Rightarrow> string \<Rightarrow> env" where
  "typed_detector df voices lang =
     (answering df voices lang)
       \<lparr>detect := (\<lambda>text. case text of
                               Str s \<Rightarrow> Inr lang
                             | _ \<Rightarrow> Inl (TypeError ''expected string or bytes-like object''))\<rparr>"

section \<open>Timestamps\<close>

lemma py_split_not_Nil: "py_split c s \<noteq> []"
  by (induction s) (auto split: list.splits)




section \<open>The markup generator: what the document holds\<close>


















section \<open>The upload endpoint: locale and column\<close>

lemma find_filter: "find P (filter Q xs) = find (\<lambda>x. Q x \<and> P x) xs"
  by (induction xs) simp_all

lemma find_None_set: "find P xs = None \<longleftrightarrow> (\<forall>x \<in> set xs. \<not> P x)"
  by (induction xs) simp_all

lemma resolve_voices_Inr:
  "resolve_voices loc cat = Inr (m, f) \<longleftrightarrow>
     (\<exists>vm vf. find (\<lambda>v. loc = Locale v \<and> sublist ''Male'' (Gender v)) cat = Some vm
            \<and> find (\<lambda>v. loc = Locale v \<and> sublist ''Female'' (Gender v)) cat = Some vf
            \<and> m = ShortName vm \<and> f = ShortName vf \<and> m \<noteq> [] \<and> f \<noteq> [])"
proof (cases "filter (\<lambda>v. loc = Locale v) cat = []")
  case True
  then have "\<forall>v \<in> set cat. loc \<noteq> Locale v" by (simp add: filter_empty_conv)
  then have "find (\<lambda>v. loc = Locale v \<and> sublist ''Male'' (Gender v)) cat = None"
    by (simp add: find_None_set)
  with True show ?thesis by (simp add: resolve_voices_def)
next
  case False
  then show ?thesis
    by (auto simp: resolve_voices_def Let_def find_filter split: option.splits)
qed

lemma resolve_voices_no_locale:
  "\<forall>v \<in> set cat. Locale v \<noteq> loc \<Longrightarrow>
     resolve_voices loc cat = Inl [(''error'', ''Invalid locale specified or locale not supported.'')]"
proof -
  assume "\<forall>v \<in> set cat. Locale v \<noteq> loc"
  then have "filter (\<lambda>v. loc = Locale v) cat = []" by (auto simp: filter_empty_conv)
  then show ?thesis by (simp add: resolve_voices_def)
qed

lemma resolve_voices_no_gender:
  assumes "\<exists>v \<in> set cat. Locale v = loc"
    and "(\<forall>v \<in> set cat. Locale v = loc \<longrightarrow> \<not> sublist ''Male'' (Gender v))
         \<or> (\<forall>v \<in> set cat. Locale v = loc \<longrightarrow> \<not> sublist ''Female'' (Gender v))"
  shows "resolve_voices loc cat
           = Inl [(''error'', ''Male or female voice not found for '' @ loc @ ''.'')]"
proof -
  from assms(1) have ne: "filter (\<lambda>v. loc = Locale v) cat \<noteq> []"
    by (auto simp: filter_empty_conv)
  from assms(2) have "find (\<lambda>v. loc = Locale v \<and> sublist ''Male'' (Gender v)) cat = None
      \<or> find (\<lambda>v. loc = Locale v \<and> sublist ''Female'' (Gender v)) cat = None"
    by (auto simp: find_None_set)
  with ne show ?thesis
    by (auto simp: resolve_voices_def Let_def find_filter split: option.splits)
qed

lemma upload_csv_voices_payload:
  assumes "file_read env = Inr contents" "decode_utf8 env contents = Inr decoded"
    and "read_csv env decoded = Inr df"
    and "put_object env (S3_INPUT_FOLDER @ uuid4 env 0 @ ''.csv'') contents = None"
    and "get_supported_voices env = Inr cat"
  shows "upload_csv_voices env source =
           (case resolve_voices (clean_source source) cat of
              Inl payload \<Rightarrow> Inr (Inl payload)
            | Inr (m, f) \<Rightarrow> Inr (Inr (df, clean_source source, m, f)))"
  using assms by (simp add: upload_csv_voices_def upload_file_to_s3_def Let_def)

lemma upload_csv_early_payload:
  "upload_csv_voices env source = Inr (Inl payload) \<Longrightarrow> upload_csv env source = Inr payload"
  by (simp add: upload_csv_def upload_csv_body_def)

text \<open>
  C5. The voices of a locale are looked up among the catalogue entries whose \<open>Locale\<close>
  equals the requested string: the male voice is the \<open>ShortName\<close> of the first such entry
  whose \<open>Gender\<close> contains \<open>Male\<close>, the female voice that of the first whose \<open>Gender\<close>
  contains \<open>Female\<close> (and both names are non-empty). With no entry of the locale, or
  none of them male, or none female, the outcome is an \<open>error\<close> payload, which the
  handler returns instead of raising. Over the two \<open>en-US\<close> entries \<open>A\<close> (male) and \<open>B\<close>
  (female), \<open>en-US\<close> gives \<open>(A, B)\<close> and \<open>fr-FR\<close> the error of an unsupported locale.
\<close>

theorem resolve_voices_by_locale_and_gender:
  "(resolve_voices loc cat = Inr (m, f) \<longleftrightarrow>
      (\<exists>vm vf. find (\<lambda>v. loc = Locale v \<and> sublist ''Male'' (Gender v)) cat = Some vm
             \<and> find (\<lambda>v. loc = Locale v \<and> sublist ''Female'' (Gender v)) cat = Some vf
             \<and> m = ShortName vm \<and> f = ShortName vf \<and> m \<noteq> [] \<and> f \<noteq> []))
   \<and> ((\<forall>v \<in> set cat. Locale v \<noteq> loc) \<longrightarrow>
        resolve_voices loc cat
          = Inl [(''error'', ''Invalid locale specified or locale not supported.'')])
   \<and> ((\<exists>v \<in> set cat. Locale v = loc)
        \<and> ((\<forall>v \<in> set cat. Locale v = loc \<longrightarrow> \<not> sublist ''Male'' (Gender v))
           \<or> (\<forall>v \<in> set cat. Locale v = loc \<longrightarrow> \<not> sublist ''Female'' (Gender v))) \<longrightarrow>
        resolve_voices loc cat
          = Inl [(''error'', ''Male or female voice not found for '' @ loc @ ''.'')])
   \<and> (file_read env = Inr contents \<and> decode_utf8 env contents = Inr decoded
        \<and> read_csv env decoded = Inr df
        \<and> put_object env (S3_INPUT_FOLDER @ uuid4 env 0 @ ''.csv'') contents = None
        \<and> get_supported_voices env = Inr cat
        \<and> resolve_voices (clean_source source) cat = Inl payload \<longrightarrow>
        upload_csv env source = Inr payload)
   \<and> resolve_voices ''en-US'' sample_voices = Inr (''A'', ''B'')
   \<and> resolve_voices ''fr-FR'' sample_voices
       = Inl [(''error'', ''Invalid locale specified or locale not supported.'')]"
proof (intro conjI)
  show "resolve_voices loc cat = Inr (m, f) \<longleftrightarrow>
      (\<exists>vm vf. find (\<lambda>v. loc = Locale v \<and> sublist ''Male'' (Gender v)) cat = Some vm
             \<and> find (\<lambda>v. loc = Locale v \<and> sublist ''Female'' (Gender v)) cat = Some vf
             \<and> m = ShortName vm \<and> f = ShortName vf \<and> m \<noteq> [] \<and> f \<noteq> [])"
    by (rule resolve_voices_Inr)
  show "(\<forall>v \<in> set cat. Locale v \<noteq> loc) \<longrightarrow>
        resolve_voices loc cat
          = Inl [(''error'', ''Invalid locale specified or locale not supported.'')]"
    using resolve_voices_no_locale by blast
  show "(\<exists>v \<in> set cat. Locale v = loc)
        \<and> ((\<forall>v \<in> set cat. Locale v = loc \<longrightarrow> \<not> sublist ''Male'' (Gender v))
           \<or> (\<forall>v \<in> set cat. Locale v = loc \<longrightarrow> \<not> sublist ''Female'' (Gender v))) \<longrightarrow>
        resolve_voices loc cat
          = Inl [(''error'', ''Male or female voice not found for '' @ loc @ ''.'')]"
    using resolve_voices_no_gender by blast
  show "file_read env = Inr contents \<and> decode_utf8 env contents = Inr decoded
        \<and> read_csv env decoded = Inr df
        \<and> put_object env (S3_INPUT_FOLDER @ uuid4 env 0 @ ''.csv'') contents = None
        \<and> get_supported_voices env = Inr cat
        \<and> resolve_voices (clean_source source) cat = Inl payload \<longrightarrow>
        upload_csv env source = Inr payload"
  proof (intro impI, elim conjE)
    assume a: "file_read env = Inr contents" "decode_utf8 env contents = Inr decoded"
      "read_csv env decoded = Inr df"
      "put_object env (S3_INPUT_FOLDER @ uuid4 env 0 @ ''.csv'') contents = None"
      "get_supported_voices env = Inr cat"
      and r: "resolve_voices (clean_source source) cat = Inl payload"
    from upload_csv_voices_payload[OF a, of source] r
    have "upload_csv_voices env source = Inr (Inl payload)" by simp
    then show "upload_csv env source = Inr payload" by (rule upload_csv_early_payload)
  qed
  show "resolve_voices ''en-US'' sample_voices = Inr (''A'', ''B'')"
    by code_simp
  show "resolve_voices ''fr-FR'' sample_voices
       = Inl [(''error'', ''Invalid locale specified or locale not supported.'')]"
    by code_simp
qed

theorem resolve_voices_by_locale_and_gender_witness:
  "resolve_voices ''en-US'' hindi_voices
     = Inl [(''error'', ''Male or female voice not found for en-US.'')]
   \<and> resolve_voices ''fr-FR'' hindi_voices
     = Inl [(''error'', ''Invalid locale specified or locale not supported.'')]
   \<and> upload_csv (answering four_rows sample_voices ''en'') ''fr-FR''
     = Inr [(''error'', ''Invalid locale specified or locale not supported.'')]"
proof -
  let ?env = "answering four_rows sample_voices ''en''"
  have some: "\<exists>v \<in> set hindi_voices. Locale v = ''en-US''"
    by (simp add: hindi_voices_def)
  have nofemale: "\<forall>v \<in> set hindi_voices. Locale v = ''en-US'' \<longrightarrow> \<not> sublist ''Female'' (Gender v)"
    by code_simp
  have none: "\<forall>v \<in> set hindi_voices. Locale v \<noteq> ''fr-FR''"
    by (simp add: hindi_voices_def)
  have env: "file_read ?env = Inr ''csv''" "decode_utf8 ?env ''csv'' = Inr ''csv''"
    "read_csv ?env ''csv'' = Inr four_rows"
    "put_object ?env (S3_INPUT_FOLDER @ uuid4 ?env 0 @ ''.csv'') ''csv'' = None"
    "get_supported_voices ?env = Inr sample_voices"
    by (simp_all add: answering_def)
  have cs: "clean_source ''fr-FR'' = ''fr-FR''" by code_simp
  have r: "resolve_voices (clean_source ''fr-FR'') sample_voices
             = Inl [(''error'', ''Invalid locale specified or locale not supported.'')]"
    unfolding cs by code_simp
  note gen = resolve_voices_by_locale_and_gender
  from gen[where loc = "''en-US''" and cat = hindi_voices] some nofemale
  have a: "resolve_voices ''en-US'' hindi_voices
     = Inl [(''error'', ''Male or female voice not found for '' @ ''en-US'' @ ''.'')]"
    by blast
  from gen[where loc = "''fr-FR''" and cat = hindi_voices] none
  have b: "resolve_voices ''fr-FR'' hindi_voices
     = Inl [(''error'', ''Invalid locale specified or locale not supported.'')]"
    by blast
  from gen[where env = "?env" and contents = "''csv''" and decoded = "''csv''" and df = four_rows
        and cat = sample_voices and source = "''fr-FR''"
        and payload = "[(''error'', ''Invalid locale specified or locale not supported.'')]"]
    env r
  have c: "upload_csv ?env ''fr-FR''
     = Inr [(''error'', ''Invalid locale specified or locale not supported.'')]"
    by blast
  from a b c show ?thesis by simp
qed

lemma find_transcription_column_Some:
  "find_transcription_column cols code = Some c \<Longrightarrow>
     \<exists>before after. cols = before @ c # after
        \<and> sublist code c \<and> suffix ''--Transcription'' c
        \<and> (\<forall>x \<in> set before. \<not> (sublist code x \<and> suffix ''--Transcription'' x))"
proof (induction cols)
  case Nil
  then show ?case by simp
next
  case (Cons col cols)
  show ?case
  proof (cases "sublist code col \<and> suffix ''--Transcription'' col")
    case True
    with Cons.prems have "c = col" by simp
    with True have "col # cols = [] @ c # cols \<and> sublist code c \<and> suffix ''--Transcription'' c
        \<and> (\<forall>x \<in> set []. \<not> (sublist code x \<and> suffix ''--Transcription'' x))" by simp
    then show ?thesis by blast
  next
    case False
    with Cons.prems have "find_transcription_column cols code = Some c" by auto
    from Cons.IH[OF this] obtain before after where
      "cols = before @ c # after" "sublist code c" "suffix ''--Transcription'' c"
      "\<forall>x \<in> set before. \<not> (sublist code x \<and> suffix ''--Transcription'' x)" by blast
    with False have "col # cols = (col # before) @ c # after \<and> sublist code c
        \<and> suffix ''--Transcription'' c
        \<and> (\<forall>x \<in> set (col # before). \<not> (sublist code x \<and> suffix ''--Transcription'' x))"
      by simp
    then show ?thesis by blast
  qed
qed

lemma find_transcription_column_None:
  "find_transcription_column cols code = None \<longleftrightarrow>
     (\<forall>x \<in> set cols. \<not> (sublist code x \<and> suffix ''--Transcription'' x))"
  by (induction cols) auto

lemma find_transcription_column_not_empty:
  "find_transcription_column cols code = Some c \<Longrightarrow> c \<noteq> []"
  by (auto dest!: find_transcription_column_Some)

lemma upload_csv_reaches_source:
  assumes "upload_csv_voices env source = Inr (Inr (df, sc, m, f))"
    and "generate_ssml env 1 df ''EN--Transcription'' ''en-US-GuyNeural'' ''en-US-JennyNeural''
           ''en-US'' = Inr path"
    and "convert_ssml_to_audio env path = Inr audio"
  shows "upload_csv_body env source = upload_csv_source env df sc m f audio"
  using assms by (simp add: upload_csv_body_def)

lemma upload_csv_returns_payload:
  "upload_csv_body env source = Inr payload \<Longrightarrow> upload_csv env source = Inr payload"
  by (simp add: upload_csv_def)

text \<open>
  C6. For the locale code that the handler derives, the text after the last hyphen of
  the locale, \<open>find_transcription_column\<close> returns the first column, in the order of the
  columns, whose name contains the code and ends with \<open>--Transcription\<close>, and \<open>None\<close>
  exactly when no column does. Over \<open>EN--Transcription\<close> and \<open>IN--Transcription\<close>,
  \<open>hi-IN\<close> finds \<open>IN--Transcription\<close> and \<open>xx-ZZ\<close> finds nothing. When nothing is found,
  the handler returns an \<open>error\<close> payload.
\<close>

theorem find_transcription_column_first_match:
  "(find_transcription_column cols (last (py_split CHR ''-'' locale)) = Some c \<longrightarrow>
      (\<exists>before after. cols = before @ c # after
         \<and> sublist (last (py_split CHR ''-'' locale)) c \<and> suffix ''--Transcription'' c
         \<and> (\<forall>x \<in> set before. \<not> (sublist (last (py_split CHR ''-'' locale)) x
                                      \<and> suffix ''--Transcription'' x))))
   \<and> (find_transcription_column cols (last (py_split CHR ''-'' locale)) = None \<longleftrightarrow>
        (\<forall>x \<in> set cols. \<not> (sublist (last (py_split CHR ''-'' locale)) x
                               \<and> suffix ''--Transcription'' x)))
   \<and> find_transcription_column [''EN--Transcription'', ''IN--Transcription'']
         (last (py_split CHR ''-'' ''hi-IN'')) = Some ''IN--Transcription''
   \<and> find_transcription_column [''EN--Transcription'', ''IN--Transcription'']
         (last (py_split CHR ''-'' ''xx-ZZ'')) = None
   \<and> (find_transcription_column (columns df) (last (py_split CHR ''-'' sc)) = None \<longrightarrow>
        upload_csv_source env df sc m f audio
          = Inr [(''error'', ''CSV must contain a column with '' @ apostrophe
                     @ last (py_split CHR ''-'' sc)
                     @ ''--Transcription' for the specified language.'')])
   \<and> (upload_csv_voices env source = Inr (Inr (df, sc, m, f))
        \<and> generate_ssml env 1 df ''EN--Transcription'' ''en-US-GuyNeural'' ''en-US-JennyNeural''
             ''en-US'' = Inr path
        \<and> convert_ssml_to_audio env path = Inr audio
        \<and> find_transcription_column (columns df) (last (py_split CHR ''-'' sc)) = None \<longrightarrow>
        upload_csv env source
          = Inr [(''error'', ''CSV must contain a column with '' @ apostrophe
                     @ last (py_split CHR ''-'' sc)
                     @ ''--Transcription' for the specified language.'')])"
proof (intro conjI)
  show "find_transcription_column cols (last (py_split CHR ''-'' locale)) = Some c \<longrightarrow>
      (\<exists>before after. cols = before @ c # after
         \<and> sublist (last (py_split CHR ''-'' locale)) c \<and> suffix ''--Transcription'' c
         \<and> (\<forall>x \<in> set before. \<not> (sublist (last (py_split CHR ''-'' locale)) x
                                      \<and> suffix ''--Transcription'' x)))"
    using find_transcription_column_Some by blast
  show "find_transcription_column cols (last (py_split CHR ''-'' locale)) = None \<longleftrightarrow>
        (\<forall>x \<in> set cols. \<not> (sublist (last (py_split CHR ''-'' locale)) x
                               \<and> suffix ''--Transcription'' x))"
    by (rule find_transcription_column_None)
  show "find_transcription_column [''EN--Transcription'', ''IN--Transcription'']
         (last (py_split CHR ''-'' ''hi-IN'')) = Some ''IN--Transcription''"
    by code_simp
  show "find_transcription_column [''EN--Transcription'', ''IN--Transcription'']
         (last (py_split CHR ''-'' ''xx-ZZ'')) = None"
    by code_simp
  show src: "find_transcription_column (columns df) (last (py_split CHR ''-'' sc)) = None \<longrightarrow>
        upload_csv_source env df sc m f audio
          = Inr [(''error'', ''CSV must contain a column with '' @ apostrophe
                     @ last (py_split CHR ''-'' sc)
                     @ ''--Transcription' for the specified language.'')]"
    by (simp add: upload_csv_source_def Let_def)
  show "upload_csv_voices env source = Inr (Inr (df, sc, m, f))
        \<and> generate_ssml env 1 df ''EN--Transcription'' ''en-US-GuyNeural'' ''en-US-JennyNeural''
             ''en-US'' = Inr path
        \<and> convert_ssml_to_audio env path = Inr audio
        \<and> find_transcription_column (columns df) (last (py_split CHR ''-'' sc)) = None \<longrightarrow>
        upload_csv env source
          = Inr [(''error'', ''CSV must contain a column with '' @ apostrophe
                     @ last (py_split CHR ''-'' sc)
                     @ ''--Transcription' for the specified language.'')]"
  proof (intro impI, elim conjE)
    assume a: "upload_csv_voices env source = Inr (Inr (df, sc, m, f))"
      "generate_ssml env 1 df ''EN--Transcription'' ''en-US-GuyNeural'' ''en-US-JennyNeural''
             ''en-US'' = Inr path"
      "convert_ssml_to_audio env path = Inr audio"
      and n: "find_transcription_column (columns df) (last (py_split CHR ''-'' sc)) = None"
    from upload_csv_reaches_source[OF a] src n
    have "upload_csv_body env source
          = Inr [(''error'', ''CSV must contain a column with '' @ apostrophe
                     @ last (py_split CHR ''-'' sc)
                     @ ''--Transcription' for the specified language.'')]" by simp
    then show "upload_csv env source
          = Inr [(''error'', ''CSV must contain a column with '' @ apostrophe
                     @ last (py_split CHR ''-'' sc)
                     @ ''--Transcription' for the specified language.'')]"
      by (rule upload_csv_returns_payload)
  qed
qed

lemma sample_request_voices:
  "upload_csv_voices (answering four_rows sample_voices lang) ''en-US''
     = Inr (Inr (four_rows, ''en-US'', ''A'', ''B''))"
proof -
  have cs: "clean_source ''en-US'' = ''en-US''" by code_simp
  have rv: "resolve_voices ''en-US'' sample_voices = Inr (''A'', ''B'')" by code_simp
  show ?thesis
    by (simp add: upload_csv_voices_def answering_def upload_file_to_s3_def Let_def cs rv)
qed

theorem find_transcription_column_first_match_witness:
  "find_transcription_column (columns four_rows) (last (py_split CHR ''-'' ''en-US'')) = None
   \<and> upload_csv (answering four_rows sample_voices ''en'') ''en-US''
       = Inr [(''error'',
               ''CSV must contain a column with 'US--Transcription' for the specified language.'')]
   \<and> find_transcription_column (columns four_rows) (last (py_split CHR ''-'' ''hi-IN''))
       = Some ''IN--Transcription''"
proof -
  let ?env = "answering four_rows sample_voices ''en''"
  have g: "generate_ssml ?env 1 four_rows ''EN--Transcription'' ''en-US-GuyNeural''
             ''en-US-JennyNeural'' ''en-US'' = Inr ''s3://bucket/ssml/id1.ssml''"
    by code_simp
  have c: "convert_ssml_to_audio ?env ''s3://bucket/ssml/id1.ssml''
             = Inr ''s3://bucket/ssml/id1.ssml.wav''"
    by (simp add: answering_def)
  have n: "find_transcription_column (columns four_rows) (last (py_split CHR ''-'' ''en-US'')) = None"
    by code_simp
  have s: "find_transcription_column (columns four_rows) (last (py_split CHR ''-'' ''hi-IN''))
       = Some ''IN--Transcription''"
    by code_simp
  have l: "last (py_split CHR ''-'' ''en-US'') = ''US''" by code_simp
  from find_transcription_column_first_match[where env = "?env" and source = "''en-US''"
        and df = four_rows and sc = "''en-US''" and m = "''A''" and f = "''B''"
        and path = "''s3://bucket/ssml/id1.ssml''" and audio = "''s3://bucket/ssml/id1.ssml.wav''"]
    sample_request_voices[of "''en''"] g c n
  have "upload_csv ?env ''en-US''
          = Inr [(''error'', ''CSV must contain a column with '' @ apostrophe
                     @ last (py_split CHR ''-'' ''en-US'')
                     @ ''--Transcription' for the specified language.'')]"
    by blast
  with n s show ?thesis by (simp add: l)
qed

section \<open>The upload endpoint: the language check\<close>







section \<open>The upload endpoint: what the caller receives\<close>

lemma resolve_voices_Inl:
  "resolve_voices loc cat = Inl payload \<Longrightarrow> \<exists>msg. payload = [(''error'', msg)]"
  by (auto simp: resolve_voices_def Let_def split: if_splits option.splits)

lemma upload_csv_voices_Inl:
  assumes "upload_csv_voices env source = Inr (Inl payload)"
  shows "\<exists>msg. payload = [(''error'', msg)]"
proof (cases "file_read env")
  case (Inl e)
  with assms show ?thesis by (simp add: upload_csv_voices_def)
next
  case contents: (Inr contents)
  show ?thesis
  proof (cases "case decode_utf8 env contents of Inl e \<Rightarrow> Inl e | Inr decoded \<Rightarrow> read_csv env decoded")
    case (Inl e)
    with assms contents show ?thesis
      by (cases e) (auto simp: upload_csv_voices_def)
  next
    case df: (Inr df)
    show ?thesis
    proof (cases "upload_file_to_s3 env contents (uuid4 env 0 @ ''.csv'') S3_INPUT_FOLDER")
      case (Inl e)
      with assms contents df show ?thesis by (simp add: upload_csv_voices_def)
    next
      case up: (Inr p)
      show ?thesis
      proof (cases "get_supported_voices env")
        case (Inl e)
        with assms contents df up show ?thesis by (simp add: upload_csv_voices_def)
      next
        case (Inr cat)
        with assms contents df up
        have "resolve_voices (clean_source source) cat = Inl payload"
          by (auto simp: upload_csv_voices_def Let_def split: sum.splits)
        then show ?thesis by (rule resolve_voices_Inl)
      qed
    qed
  qed
qed

lemma upload_csv_source_Inr:
  assumes "upload_csv_source env df sc m f audio = Inr payload"
  shows "(\<exists>msg. payload = [(''error'', msg)])
       \<or> (\<exists>audio_source. payload = [(''message'', ''Audio files generated successfully''),
                                (''english_audio_link'', audio),
                                (''language_audio_link'', audio_source)])"
  using assms
  by (auto simp: upload_csv_source_def Let_def split: option.splits if_splits sum.splits)

lemma upload_csv_body_Inr:
  assumes "upload_csv_body env source = Inr payload"
  shows "(\<exists>msg. payload = [(''error'', msg)])
       \<or> (\<exists>en lang. payload = [(''message'', ''Audio files generated successfully''),
                            (''english_audio_link'', en), (''language_audio_link'', lang)])"
proof (cases "upload_csv_voices env source")
  case (Inl e)
  with assms show ?thesis by (simp add: upload_csv_body_def)
next
  case (Inr r)
  show ?thesis
  proof (cases r)
    case (Inl early)
    with Inr assms have "payload = early" by (simp add: upload_csv_body_def)
    with Inr Inl upload_csv_voices_Inl[of env source early] show ?thesis by simp
  next
    case ctx: (Inr ctx)
    obtain df sc m f where c: "ctx = (df, sc, m, f)" by (cases ctx) auto
    from assms Inr ctx c obtain audio where
      "upload_csv_source env df sc m f audio = Inr payload"
      by (auto simp: upload_csv_body_def split: sum.splits)
    from upload_csv_source_Inr[OF this] show ?thesis by blast
  qed
qed

lemma generate_ssml_missing_column:
  "lang_column \<notin> set (columns df) \<Longrightarrow>
     generate_ssml env n df lang_column m f xml_lang
       = Inl (ValueError (''Column '' @ apostrophe @ lang_column @ apostrophe
                            @ '' not found in the CSV file.''))"
  by (simp add: generate_ssml_def ssml_document_def)

text \<open>
  C8. \<open>upload_csv\<close> always returns a payload and never lets an exception out: the
  payload is \<open>{error: message}\<close>, or it is the success object with exactly the fields
  \<open>message\<close>, \<open>english_audio_link\<close> and \<open>language_audio_link\<close>. An exception of the body
  becomes an \<open>error\<close> payload with its message, bare for a \<open>ValueError\<close> and after
  \<open>Error processing file.\<close> for any other. \<open>generate_ssml\<close> raises a \<open>ValueError\<close> when
  the table lacks the column it is asked for, and a table without the English column
  makes the handler return that message as its \<open>error\<close>.
\<close>

theorem upload_csv_returns_error_or_success:
  "(\<exists>payload. upload_csv env source = Inr payload
      \<and> ((\<exists>msg. payload = [(''error'', msg)])
         \<or> (\<exists>en lang. payload = [(''message'', ''Audio files generated successfully''),
                              (''english_audio_link'', en), (''language_audio_link'', lang)])))
   \<and> (upload_csv_body env source = Inl e \<longrightarrow>
        upload_csv env source
          = Inr [(''error'', (if is_ValueError e then [] else ''Error processing file. '')
                               @ str_exn e)])
   \<and> (lang_column \<notin> set (columns df) \<longrightarrow>
        generate_ssml env n df lang_column m f xml_lang
          = Inl (ValueError (''Column '' @ apostrophe @ lang_column @ apostrophe
                               @ '' not found in the CSV file.'')))
   \<and> (upload_csv_voices env source = Inr (Inr (df, sc, m, f))
        \<and> ''EN--Transcription'' \<notin> set (columns df) \<longrightarrow>
        upload_csv env source
          = Inr [(''error'', ''Column 'EN--Transcription' not found in the CSV file.'')])"
proof (intro conjI)
  show "\<exists>payload. upload_csv env source = Inr payload
      \<and> ((\<exists>msg. payload = [(''error'', msg)])
         \<or> (\<exists>en lang. payload = [(''message'', ''Audio files generated successfully''),
                              (''english_audio_link'', en), (''language_audio_link'', lang)]))"
  proof (cases "upload_csv_body env source")
    case (Inl e)
    then show ?thesis by (simp add: upload_csv_def)
  next
    case (Inr payload)
    from upload_csv_body_Inr[OF this] Inr show ?thesis by (simp add: upload_csv_def)
  qed
  show "upload_csv_body env source = Inl e \<longrightarrow>
        upload_csv env source
          = Inr [(''error'', (if is_ValueError e then [] else ''Error processing file. '')
                               @ str_exn e)]"
    by (simp add: upload_csv_def)
  show "lang_column \<notin> set (columns df) \<longrightarrow>
        generate_ssml env n df lang_column m f xml_lang
          = Inl (ValueError (''Column '' @ apostrophe @ lang_column @ apostrophe
                               @ '' not found in the CSV file.''))"
    by (simp add: generate_ssml_missing_column)
  show "upload_csv_voices env source = Inr (Inr (df, sc, m, f))
        \<and> ''EN--Transcription'' \<notin> set (columns df) \<longrightarrow>
        upload_csv env source
          = Inr [(''error'', ''Column 'EN--Transcription' not found in the CSV file.'')]"
  proof (intro impI, elim conjE)
    assume v: "upload_csv_voices env source = Inr (Inr (df, sc, m, f))"
      and n: "''EN--Transcription'' \<notin> set (columns df)"
    from generate_ssml_missing_column[OF n, of env 1 "''en-US-GuyNeural''" "''en-US-JennyNeural''" "''en-US''"] v
    have "upload_csv_body env source
            = Inl (ValueError (''Column '' @ apostrophe @ ''EN--Transcription'' @ apostrophe
                                 @ '' not found in the CSV file.''))"
      by (simp add: upload_csv_body_def)
    then show "upload_csv env source
          = Inr [(''error'', ''Column 'EN--Transcription' not found in the CSV file.'')]"
      by (simp add: upload_csv_def)
  qed
qed

lemma no_english_request_voices:
  "upload_csv_voices (answering no_english hindi_voices lang) ''hi-IN''
     = Inr (Inr (no_english, ''hi-IN'', ''M'', ''S''))"
proof -
  have cs: "clean_source ''hi-IN'' = ''hi-IN''" by code_simp
  have rv: "resolve_voices ''hi-IN'' hindi_voices = Inr (''M'', ''S'')" by code_simp
  show ?thesis
    by (simp add: upload_csv_voices_def answering_def upload_file_to_s3_def Let_def cs rv)
qed

theorem upload_csv_returns_error_or_success_witness:
  "upload_csv (answering no_english hindi_voices ''hi'') ''hi-IN''
     = Inr [(''error'', ''Column 'EN--Transcription' not found in the CSV file.'')]
   \<and> generate_ssml (answering no_english hindi_voices ''hi'') 1 no_english ''EN--Transcription''
        ''M'' ''S'' ''en-US''
     = Inl (ValueError ''Column 'EN--Transcription' not found in the CSV file.'')
   \<and> upload_csv (answering four_rows hindi_voices ''hi'') ''hi-IN''
     = Inr [(''message'', ''Audio files generated successfully''),
            (''english_audio_link'', ''s3://bucket/ssml/id1.ssml.wav''),
            (''language_audio_link'', ''s3://bucket/ssml/id2.ssml.wav'')]"
proof -
  let ?env = "answering no_english hindi_voices ''hi''"
  note gen = upload_csv_returns_error_or_success
  have n: "''EN--Transcription'' \<notin> set (columns no_english)"
    by (simp add: no_english_def)
  from gen[where env = "?env" and source = "''hi-IN''" and df = no_english and sc = "''hi-IN''"
        and m = "''M''" and f = "''S''"]
    no_english_request_voices[of "''hi''"] n
  have a: "upload_csv ?env ''hi-IN''
     = Inr [(''error'', ''Column 'EN--Transcription' not found in the CSV file.'')]"
    by blast
  from gen[where env = "?env" and n = 1 and df = no_english and lang_column = "''EN--Transcription''"
        and m = "''M''" and f = "''S''" and xml_lang = "''en-US''"] n
  have "generate_ssml ?env 1 no_english ''EN--Transcription'' ''M'' ''S'' ''en-US''
     = Inl (ValueError (''Column '' @ apostrophe @ ''EN--Transcription'' @ apostrophe
                               @ '' not found in the CSV file.''))"
    by blast
  then have b: "generate_ssml ?env 1 no_english ''EN--Transcription'' ''M'' ''S'' ''en-US''
     = Inl (ValueError ''Column 'EN--Transcription' not found in the CSV file.'')"
    by simp
  have c: "upload_csv (answering four_rows hindi_voices ''hi'') ''hi-IN''
     = Inr [(''message'', ''Audio files generated successfully''),
            (''english_audio_link'', ''s3://bucket/ssml/id1.ssml.wav''),
            (''language_audio_link'', ''s3://bucket/ssml/id2.ssml.wav'')]"
    by code_simp
  from a b c show ?thesis by simp
qed

section \<open>Missing cells\<close>





lemma ssml_rows_missing_here:
  "row_get cols row lc (Str []) = NaN \<Longrightarrow>
     ssml_rows cols lc m f (row # rest) prev acc
       = Inl (TypeError ''expected string or bytes-like object'')"
  by (simp add: clean_text_def)



lemma find_transcription_column_member:
  "find_transcription_column cols code = Some c \<Longrightarrow> c \<in> set cols"
  by (auto dest!: find_transcription_column_Some)





section \<open>The first transcription\<close>

lemma dropna_empty: "dropna (column df col) = [] \<longleftrightarrow> (\<forall>row \<in> set (rows df). row col = NaN)"
  by (auto simp: dropna_def column_def filter_empty_conv)

lemma upload_csv_source_empty_column:
  assumes "find_transcription_column (columns df) (last (py_split CHR ''-'' sc)) = Some col"
    and "dropna (column df col) = []"
  shows "upload_csv_source env df sc m f audio
           = Inl (IndexError ''single positional indexer is out-of-bounds'')"
proof -
  from assms(1) have "col \<noteq> []" by (rule find_transcription_column_not_empty)
  with assms show ?thesis
    by (simp add: upload_csv_source_def Let_def iloc0_def)
qed

lemma upload_csv_source_detector_raises:
  assumes "find_transcription_column (columns df) (last (py_split CHR ''-'' sc)) = Some col"
    and "dropna (column df col) = first # others"
    and "detect_language env first = Inl e"
  shows "upload_csv_source env df sc m f audio = Inl e"
proof -
  from assms(1) have "col \<noteq> []" by (rule find_transcription_column_not_empty)
  with assms show ?thesis
    by (simp add: upload_csv_source_def Let_def iloc0_def)
qed

text \<open>
  C10. Whatever the locale code, the handler takes the first value of the matched column
  that is not missing and gives it to \<open>detect_language\<close>: an exception that leaves
  \<open>detect_language\<close> ends the request for every code, and a matched column with missing
  values only ends it with the \<open>IndexError\<close> of \<open>iloc[0]\<close> on an empty series, which the
  handler returns as a generic error payload.
\<close>

theorem first_transcription_fetched_for_every_locale:
  "(dropna (column df col) = [] \<longleftrightarrow> (\<forall>row \<in> set (rows df). row col = NaN))
   \<and> (find_transcription_column (columns df) (last (py_split CHR ''-'' sc)) = Some col
        \<and> dropna (column df col) = [] \<longrightarrow>
        upload_csv_source env df sc m f audio
          = Inl (IndexError ''single positional indexer is out-of-bounds''))
   \<and> (find_transcription_column (columns df) (last (py_split CHR ''-'' sc)) = Some col
        \<and> dropna (column df col) = first # others
        \<and> detect_language env first = Inl e \<longrightarrow>
        upload_csv_source env df sc m f audio = Inl e)
   \<and> (upload_csv_voices env source = Inr (Inr (df, sc, m, f))
        \<and> generate_ssml env 1 df ''EN--Transcription'' ''en-US-GuyNeural'' ''en-US-JennyNeural''
             ''en-US'' = Inr path_en
        \<and> convert_ssml_to_audio env path_en = Inr audio
        \<and> find_transcription_column (columns df) (last (py_split CHR ''-'' sc)) = Some col
        \<and> dropna (column df col) = [] \<longrightarrow>
        upload_csv env source
          = Inr [(''error'',
                  ''Error processing file. single positional indexer is out-of-bounds'')])"
proof (intro conjI)
  show "dropna (column df col) = [] \<longleftrightarrow> (\<forall>row \<in> set (rows df). row col = NaN)"
    by (rule dropna_empty)
  show "find_transcription_column (columns df) (last (py_split CHR ''-'' sc)) = Some col
        \<and> dropna (column df col) = [] \<longrightarrow>
        upload_csv_source env df sc m f audio
          = Inl (IndexError ''single positional indexer is out-of-bounds'')"
    using upload_csv_source_empty_column by blast
  show "find_transcription_column (columns df) (last (py_split CHR ''-'' sc)) = Some col
        \<and> dropna (column df col) = first # others
        \<and> detect_language env first = Inl e \<longrightarrow>
        upload_csv_source env df sc m f audio = Inl e"
    using upload_csv_source_detector_raises by blast
  show "upload_csv_voices env source = Inr (Inr (df, sc, m, f))
        \<and> generate_ssml env 1 df ''EN--Transcription'' ''en-US-GuyNeural'' ''en-US-JennyNeural''
             ''en-US'' = Inr path_en
        \<and> convert_ssml_to_audio env path_en = Inr audio
        \<and> find_transcription_column (columns df) (last (py_split CHR ''-'' sc)) = Some col
        \<and> dropna (column df col) = [] \<longrightarrow>
        upload_csv env source
          = Inr [(''error'',
                  ''Error processing file. single positional indexer is out-of-bounds'')]"
  proof (intro impI, elim conjE)
    assume a: "upload_csv_voices env source = Inr (Inr (df, sc, m, f))"
      "generate_ssml env 1 df ''EN--Transcription'' ''en-US-GuyNeural'' ''en-US-JennyNeural''
             ''en-US'' = Inr path_en"
      "convert_ssml_to_audio env path_en = Inr audio"
      and b: "find_transcription_column (columns df) (last (py_split CHR ''-'' sc)) = Some col"
        "dropna (column df col) = []"
    from upload_csv_reaches_source[OF a] upload_csv_source_empty_column[OF b, of env m f audio]
    have "upload_csv_body env source
            = Inl (IndexError ''single positional indexer is out-of-bounds'')" by simp
    then show "upload_csv env source
          = Inr [(''error'',
                  ''Error processing file. single positional indexer is out-of-bounds'')]"
      by (simp add: upload_csv_def)
  qed
qed

lemma blank_spanish_request_voices:
  "upload_csv_voices (answering blank_spanish spanish_voices lang) ''es-ES''
     = Inr (Inr (blank_spanish, ''es-ES'', ''P'', ''Q''))"
proof -
  have cs: "clean_source ''es-ES'' = ''es-ES''" by code_simp
  have rv: "resolve_voices ''es-ES'' spanish_voices = Inr (''P'', ''Q'')" by code_simp
  show ?thesis
    by (simp add: upload_csv_voices_def answering_def upload_file_to_s3_def Let_def cs rv)
qed

theorem first_transcription_fetched_for_every_locale_witness:
  "last (py_split CHR ''-'' ''es-ES'') = ''ES''
   \<and> find_transcription_column (columns blank_spanish) ''ES'' = Some ''ES--Transcription''
   \<and> dropna (column blank_spanish ''ES--Transcription'') = []
   \<and> upload_csv (answering blank_spanish spanish_voices ''es'') ''es-ES''
       = Inr [(''error'',
               ''Error processing file. single positional indexer is out-of-bounds'')]
   \<and> upload_csv_source (typed_detector numeric_rows hindi_voices ''hi'') numeric_rows ''hi-IN''
        ''M'' ''S'' ''en.wav''
       = Inl (TypeError ''expected string or bytes-like object'')"
proof -
  let ?env = "answering blank_spanish spanish_voices ''es''"
  let ?typed = "typed_detector numeric_rows hindi_voices ''hi''"
  note gen = first_transcription_fetched_for_every_locale
  have l: "last (py_split CHR ''-'' ''es-ES'') = ''ES''" by code_simp
  have fc: "find_transcription_column (columns blank_spanish) (last (py_split CHR ''-'' ''es-ES''))
              = Some ''ES--Transcription''" by code_simp
  have dn: "dropna (column blank_spanish ''ES--Transcription'') = []" by code_simp
  have g: "generate_ssml ?env 1 blank_spanish ''EN--Transcription'' ''en-US-GuyNeural''
             ''en-US-JennyNeural'' ''en-US'' = Inr ''s3://bucket/ssml/id1.ssml''"
    by code_simp
  have c: "convert_ssml_to_audio ?env ''s3://bucket/ssml/id1.ssml''
             = Inr ''s3://bucket/ssml/id1.ssml.wav''"
    by (simp add: answering_def)
  from gen[where env = "?env" and source = "''es-ES''" and df = blank_spanish
        and sc = "''es-ES''" and m = "''P''" and f = "''Q''"
        and path_en = "''s3://bucket/ssml/id1.ssml''"
        and audio = "''s3://bucket/ssml/id1.ssml.wav''" and col = "''ES--Transcription''"]
    blank_spanish_request_voices[of "''es''"] g c fc dn
  have a: "upload_csv ?env ''es-ES''
       = Inr [(''error'',
               ''Error processing file. single positional indexer is out-of-bounds'')]"
    by blast
  have fc2: "find_transcription_column (columns numeric_rows) (last (py_split CHR ''-'' ''hi-IN''))
              = Some ''IN--Transcription''" by code_simp
  have dn2: "dropna (column numeric_rows ''IN--Transcription'') = Num 123 # []" by code_simp
  have dl: "detect_language ?typed (Num 123)
              = Inl (TypeError ''expected string or bytes-like object'')" by code_simp
  from gen[where env = "?typed" and df = numeric_rows and sc = "''hi-IN''"
        and col = "''IN--Transcription''" and first = "Num 123" and others = "[]"
        and e = "TypeError ''expected string or bytes-like object''"
        and m = "''M''" and f = "''S''" and audio = "''en.wav''"]
    fc2 dn2 dl
  have b: "upload_csv_source ?typed numeric_rows ''hi-IN'' ''M'' ''S'' ''en.wav''
       = Inl (TypeError ''expected string or bytes-like object'')"
    by blast
  from l fc dn a b show ?thesis by simp
qed

end
